theory Spec2Isabelle
  imports Main "HOL-Library.Multiset"
begin

section \<open>Extension objects and informer payloads\<close>

text \<open>
  The controller in \<^verbatim>\<open>pkg/gardenlet/controller/federatedseed/extensions/extensions.go\<close>
  reads four things of an extension object (\<^verbatim>\<open>extensionsv1alpha1.Object\<close>): its
  namespace and name (for the queue key), \<^verbatim>\<open>GetExtensionSpec().GetExtensionType()\<close>,
  \<^verbatim>\<open>GetExtensionStatus().GetState()\<close> and \<^verbatim>\<open>GetExtensionStatus().GetResources()\<close>.

  \<^verbatim>\<open>GetState()\<close> is a \<^verbatim>\<open>*runtime.RawExtension\<close>: a pointer that may be nil (here
  \<open>None\<close>) to the raw serialized bytes of the state (its decoded \<^verbatim>\<open>Object\<close> field is
  not serialized and is nil on every object that an informer delivers, so it is left
  out). \<^verbatim>\<open>GetResources()\<close> is a slice of \<^verbatim>\<open>NamedResourceReference\<close>, a name and a
  reference (kind, name, API version).
\<close>

record NamedResourceReference =
  Name :: string
  RefKind :: string
  RefName :: string
  RefAPIVersion :: string

record ext_object =
  obj_namespace :: string
  obj_name :: string
  obj_type :: string
  obj_purpose :: "string option"
  obj_state :: "string option"
  obj_resources :: "NamedResourceReference list"

text \<open>
  An informer hands its callbacks an \<^verbatim>\<open>interface{}\<close>. Besides an extension object
  this can be any other API object (it has metadata, but does not implement
  \<^verbatim>\<open>extensionsv1alpha1.Object\<close>), a \<^verbatim>\<open>cache.ExplicitKey\<close>, or the tombstone
  \<^verbatim>\<open>cache.DeletedFinalStateUnknown{Key, Obj}\<close> that a delete callback receives when the
  final state of the object was missed.
\<close>

datatype payload =
    ExtensionObject ext_object
  | ForeignObject string string
  | ExplicitKey string
  | DeletedFinalStateUnknown string payload

text \<open>The type assertion \<^verbatim>\<open>obj.(extensionsv1alpha1.Object)\<close>: the value and \<^verbatim>\<open>ok\<close>.\<close>

fun as_extension :: "payload \<Rightarrow> ext_object option" where
  "as_extension (ExtensionObject e) = Some e"
| "as_extension _ = None"

text \<open>
  \<^verbatim>\<open>meta.Accessor\<close> gives the metadata of an API object and fails on everything else;
  a tombstone is a plain struct and has none.
\<close>

fun meta_Accessor :: "payload \<Rightarrow> (string \<times> string) option" where
  "meta_Accessor (ExtensionObject e) = Some (obj_namespace e, obj_name e)"
| "meta_Accessor (ForeignObject ns n) = Some (ns, n)"
| "meta_Accessor _ = None"

text \<open>
  \<^verbatim>\<open>cache.MetaNamespaceKeyFunc\<close> of client-go: an explicit key is returned as it is;
  otherwise the key is \<^verbatim>\<open>namespace/name\<close>, or \<^verbatim>\<open>name\<close> alone for an empty namespace; an
  object without metadata is an error (\<open>Inl\<close>).
\<close>

fun MetaNamespaceKeyFunc :: "payload \<Rightarrow> string + string" where
  "MetaNamespaceKeyFunc (ExplicitKey k) = Inr k"
| "MetaNamespaceKeyFunc obj =
     (case meta_Accessor obj of
        None \<Rightarrow> Inl ''object has no meta''
      | Some (ns, n) \<Rightarrow> if length ns > 0 then Inr (ns @ ''/'' @ n) else Inr n)"

section \<open>The work queue\<close>

text \<open>
  The state of a client-go work queue as far as \<^verbatim>\<open>Add\<close> reads and writes it: the
  pending items in order, the set of items that need processing (\<open>dirty\<close>), the set of
  items being processed, and the shutdown flag.

  \<^verbatim>\<open>
  func (q *Type) Add(item interface{}) {
      if q.shuttingDown { return }
      if q.dirty.has(item) { return }
      q.dirty.insert(item)
      if q.processing.has(item) { return }
      q.queue = append(q.queue, item)
  }
  \<close>
\<close>

record 'a workqueue =
  queue :: "'a list"
  dirty :: "'a set"
  processing :: "'a set"
  shuttingDown :: bool

definition Add :: "'a \<Rightarrow> 'a workqueue \<Rightarrow> 'a workqueue" where
  "Add item q =
     (if shuttingDown q then q
      else if item \<in> dirty q then q
      else if item \<in> processing q then q\<lparr>dirty := insert item (dirty q)\<rparr>
      else q\<lparr>dirty := insert item (dirty q), queue := queue q @ [item]\<rparr>)"


definition NewQueue :: "'a workqueue" where
  "NewQueue = \<lparr>queue = [], dirty = {}, processing = {}, shuttingDown = False\<rparr>"

section \<open>The enqueue functions and the update predicates\<close>

text \<open>
  \<^verbatim>\<open>
  func enqueue(queue workqueue.RateLimitingInterface, obj interface{}) {
      key, err := cache.MetaNamespaceKeyFunc(obj)
      if err != nil { return }
      queue.Add(key)
  }
  \<close>
  The queue is a reference in the source; here the function returns its new state.
\<close>

definition enqueue :: "string workqueue \<Rightarrow> payload \<Rightarrow> string workqueue" where
  "enqueue q obj =
     (case MetaNamespaceKeyFunc obj of
        Inl err \<Rightarrow> q
      | Inr key \<Rightarrow> Add key q)"

definition createEnqueueFunc :: "string workqueue \<Rightarrow> payload \<Rightarrow> string workqueue" where
  "createEnqueueFunc q newObj = enqueue q newObj"

text \<open>
  \<^verbatim>\<open>predicateFunc\<close> may be nil (\<open>None\<close>), and then every update is enqueued.
\<close>

definition createEnqueueOnUpdateFunc ::
  "string workqueue \<Rightarrow> (payload \<Rightarrow> payload \<Rightarrow> bool) option \<Rightarrow> payload \<Rightarrow> payload \<Rightarrow> string workqueue"
where
  "createEnqueueOnUpdateFunc q predicateFunc newObj oldObj =
     (case predicateFunc of
        Some p \<Rightarrow> if \<not> p newObj oldObj then q else enqueue q newObj
      | None \<Rightarrow> enqueue q newObj)"

text \<open>
  \<^verbatim>\<open>apiequality.Semantic.DeepEqual\<close> (k8s.io/apimachinery) walks two values of the same
  type structurally: pointers are equal when both are nil or both point to equal values,
  structs field by field, slices when they have the same length and equal elements at
  every index, a nil slice being equal to an empty one. It has special equalities for
  quantities, times and selectors only, none for raw extensions or resource references.
  On the values of this model (a slice is a list, so nil and empty are already one value)
  this is equality.
\<close>

definition Semantic_DeepEqual :: "'a \<Rightarrow> 'a \<Rightarrow> bool" where
  "Semantic_DeepEqual a b = (a = b)"

definition extensionPredicateFunc ::
  "(ext_object \<Rightarrow> ext_object \<Rightarrow> bool) \<Rightarrow> payload \<Rightarrow> payload \<Rightarrow> bool"
where
  "extensionPredicateFunc f newObj oldObj =
     (case as_extension newObj of
        None \<Rightarrow> False
      | Some newExtensionObj \<Rightarrow>
          (case as_extension oldObj of
             None \<Rightarrow> False
           | Some oldExtensionObj \<Rightarrow> f newExtensionObj oldExtensionObj))"

definition extensionStateOrResourcesChanged :: "payload \<Rightarrow> payload \<Rightarrow> bool" where
  "extensionStateOrResourcesChanged newObj oldObj =
     extensionPredicateFunc
       (\<lambda>new old. \<not> Semantic_DeepEqual (obj_state new) (obj_state old)
                 \<or> \<not> Semantic_DeepEqual (obj_resources new) (obj_resources old))
       newObj oldObj"

definition extensionTypeChanged :: "payload \<Rightarrow> payload \<Rightarrow> bool" where
  "extensionTypeChanged newObj oldObj =
     extensionPredicateFunc (\<lambda>new old. obj_type old \<noteq> obj_type new) newObj oldObj"

section \<open>Properties of the enqueue functions\<close>

text \<open>A concrete extension object, used to run the functions.\<close>

definition infra_a :: ext_object where
  "infra_a = \<lparr>obj_namespace = ''shoot--a'', obj_name = ''infra'', obj_type = ''aws'',
              obj_purpose = None, obj_state = None, obj_resources = []\<rparr>"

lemma MetaNamespaceKeyFunc_extension:
  "MetaNamespaceKeyFunc (ExtensionObject e) =
     Inr (if length (obj_namespace e) > 0 then obj_namespace e @ ''/'' @ obj_name e
          else obj_name e)"
  by simp

lemma Add_pending:
  "\<not> shuttingDown q \<Longrightarrow> item \<in> dirty (Add item q)"
  by (simp add: Add_def)

text \<open>
  C9. When the key of an object cannot be computed (\<^verbatim>\<open>MetaNamespaceKeyFunc\<close> returns an
  error), \<^verbatim>\<open>enqueue\<close> drops the event: the queue is left as it was, and the function
  has no other result through which an error could surface. The same holds for the add
  and delete handler built by \<^verbatim>\<open>createEnqueueFunc\<close>.
\<close>

theorem enqueue_key_error_drops:
  "MetaNamespaceKeyFunc obj = Inl err \<Longrightarrow>
     enqueue q obj = q \<and> createEnqueueFunc q obj = q"
  by (simp add: enqueue_def createEnqueueFunc_def)

theorem enqueue_key_error_drops_witness:
  "MetaNamespaceKeyFunc (DeletedFinalStateUnknown ''garden/infra'' (ForeignObject ''garden'' ''infra''))
     = Inl ''object has no meta''
   \<and> enqueue NewQueue (DeletedFinalStateUnknown ''garden/infra'' (ForeignObject ''garden'' ''infra''))
     = NewQueue
   \<and> createEnqueueFunc NewQueue (DeletedFinalStateUnknown ''garden/infra'' (ForeignObject ''garden'' ''infra''))
     = NewQueue"
  using enqueue_key_error_drops
    [of "DeletedFinalStateUnknown ''garden/infra'' (ForeignObject ''garden'' ''infra'')"
        "''object has no meta''" NewQueue]
  by simp

text \<open>
  C10. When the old or the new payload of an update is not an extension object (the type
  assertion fails), both update predicates are false, and the update handler of either
  queue, built from its predicate, leaves the queue as it was.
\<close>

theorem update_foreign_payload_not_enqueued:
  "as_extension newObj = None \<or> as_extension oldObj = None \<Longrightarrow>
     \<not> extensionTypeChanged newObj oldObj
   \<and> \<not> extensionStateOrResourcesChanged newObj oldObj
   \<and> createEnqueueOnUpdateFunc q1 (Some extensionTypeChanged) newObj oldObj = q1
   \<and> createEnqueueOnUpdateFunc q2 (Some extensionStateOrResourcesChanged) newObj oldObj = q2"
  by (auto simp: extensionTypeChanged_def extensionStateOrResourcesChanged_def
      extensionPredicateFunc_def createEnqueueOnUpdateFunc_def split: option.splits)

theorem update_foreign_payload_not_enqueued_witness:
  "(as_extension (ExtensionObject infra_a) = None
      \<or> as_extension (DeletedFinalStateUnknown ''shoot--a/infra'' (ExtensionObject infra_a)) = None)
   \<and> \<not> extensionTypeChanged (ExtensionObject infra_a)
         (DeletedFinalStateUnknown ''shoot--a/infra'' (ExtensionObject infra_a))
   \<and> createEnqueueOnUpdateFunc NewQueue (Some extensionStateOrResourcesChanged)
         (ExtensionObject infra_a)
         (DeletedFinalStateUnknown ''shoot--a/infra'' (ExtensionObject infra_a))
       = NewQueue"
  using update_foreign_payload_not_enqueued
    [of "ExtensionObject infra_a"
        "DeletedFinalStateUnknown ''shoot--a/infra'' (ExtensionObject infra_a)"
        NewQueue NewQueue]
  by simp

section \<open>Event wiring of one kind\<close>

text \<open>
  An artifact holds, for one extension kind, the queue of the required-type tracking and
  the queue of the state mirroring. Either may be nil: \<^verbatim>\<open>createControllerInstallationWorkers\<close>
  and \<^verbatim>\<open>createShootStateWorkers\<close> skip an artifact whose queue is nil.
\<close>

record artifact =
  controllerInstallationExtensionQueue :: "string workqueue option"
  shootStateQueue :: "string workqueue option"

text \<open>
  Modelled from the spec: the registration of the informer callbacks
  (\<^verbatim>\<open>addControllerInstallationEventHandlers\<close> and \<^verbatim>\<open>addShootStateEventHandlers\<close> are called
  in \<^verbatim>\<open>NewController\<close>, their bodies are not part of the sources at hand). Section 4.2:
  on add, enqueue into both configured queues unconditionally; on update, enqueue into
  the required-type queue only if the type differs and into the state-mirror queue only
  if the observed state or resources differ; on delete, enqueue into both configured
  queues unconditionally. The handlers themselves are the source's
  \<^verbatim>\<open>createEnqueueFunc\<close> and \<^verbatim>\<open>createEnqueueOnUpdateFunc\<close> with the source's predicates.
\<close>

definition onAdd :: "artifact \<Rightarrow> payload \<Rightarrow> artifact" where
  "onAdd a obj =
     a\<lparr>controllerInstallationExtensionQueue :=
         map_option (\<lambda>q. createEnqueueFunc q obj) (controllerInstallationExtensionQueue a),
       shootStateQueue :=
         map_option (\<lambda>q. createEnqueueFunc q obj) (shootStateQueue a)\<rparr>"

definition onUpdate :: "artifact \<Rightarrow> payload \<Rightarrow> payload \<Rightarrow> artifact" where
  "onUpdate a newObj oldObj =
     a\<lparr>controllerInstallationExtensionQueue :=
         map_option (\<lambda>q. createEnqueueOnUpdateFunc q (Some extensionTypeChanged) newObj oldObj)
           (controllerInstallationExtensionQueue a),
       shootStateQueue :=
         map_option
           (\<lambda>q. createEnqueueOnUpdateFunc q (Some extensionStateOrResourcesChanged) newObj oldObj)
           (shootStateQueue a)\<rparr>"

definition onDelete :: "artifact \<Rightarrow> payload \<Rightarrow> artifact" where
  "onDelete a obj =
     a\<lparr>controllerInstallationExtensionQueue :=
         map_option (\<lambda>q. createEnqueueFunc q obj) (controllerInstallationExtensionQueue a),
       shootStateQueue :=
         map_option (\<lambda>q. createEnqueueFunc q obj) (shootStateQueue a)\<rparr>"

text \<open>The key that \<^verbatim>\<open>MetaNamespaceKeyFunc\<close> computes for an extension object.\<close>

definition extension_key :: "ext_object \<Rightarrow> string" where
  "extension_key e =
     (if length (obj_namespace e) > 0 then obj_namespace e @ ''/'' @ obj_name e
      else obj_name e)"

lemma enqueue_extension:
  "enqueue q (ExtensionObject e) = Add (extension_key e) q"
  by (simp add: enqueue_def extension_key_def)

lemma update_handler_extension:
  "createEnqueueOnUpdateFunc q (Some p) (ExtensionObject new) oldObj =
     (if p (ExtensionObject new) oldObj then Add (extension_key new) q else q)"
  by (simp add: createEnqueueOnUpdateFunc_def enqueue_extension)

lemma extensionTypeChanged_extension:
  "extensionTypeChanged (ExtensionObject new) (ExtensionObject old) =
     (obj_type old \<noteq> obj_type new)"
  by (simp add: extensionTypeChanged_def extensionPredicateFunc_def)

lemma extensionStateOrResourcesChanged_extension:
  "extensionStateOrResourcesChanged (ExtensionObject new) (ExtensionObject old) =
     (obj_state new \<noteq> obj_state old \<or> obj_resources new \<noteq> obj_resources old)"
  by (simp add: extensionStateOrResourcesChanged_def extensionPredicateFunc_def
      Semantic_DeepEqual_def)

text \<open>An artifact with both queues, new.\<close>

definition both_queues :: artifact where
  "both_queues = \<lparr>controllerInstallationExtensionQueue = Some NewQueue,
                  shootStateQueue = Some NewQueue\<rparr>"

text \<open>
  C2. For an update of an extension object of a kind with both queues: when the type is
  unchanged and the observed state differs, the handler adds the object's key to the
  state-mirror queue (after which it is pending there, unless that queue is shutting
  down) and leaves the required-type queue as it was; when the type differs and
  observed state and resources are unchanged, it adds the key to the required-type queue
  and leaves the state-mirror queue as it was.
\<close>

theorem update_predicate_precision:
  assumes "controllerInstallationExtensionQueue a = Some rq"
      and "shootStateQueue a = Some sq"
  shows "(obj_type new = obj_type old \<and> obj_state new \<noteq> obj_state old \<longrightarrow>
            shootStateQueue (onUpdate a (ExtensionObject new) (ExtensionObject old))
              = Some (Add (extension_key new) sq)
          \<and> (\<not> shuttingDown sq \<longrightarrow> extension_key new \<in> dirty (Add (extension_key new) sq))
          \<and> controllerInstallationExtensionQueue
              (onUpdate a (ExtensionObject new) (ExtensionObject old)) = Some rq)
       \<and> (obj_type new \<noteq> obj_type old \<and> obj_state new = obj_state old
            \<and> obj_resources new = obj_resources old \<longrightarrow>
            controllerInstallationExtensionQueue
              (onUpdate a (ExtensionObject new) (ExtensionObject old))
              = Some (Add (extension_key new) rq)
          \<and> (\<not> shuttingDown rq \<longrightarrow> extension_key new \<in> dirty (Add (extension_key new) rq))
          \<and> shootStateQueue (onUpdate a (ExtensionObject new) (ExtensionObject old)) = Some sq)"
  using assms
  by (auto simp: onUpdate_def update_handler_extension extensionTypeChanged_extension
      extensionStateOrResourcesChanged_extension Add_pending)

theorem update_predicate_precision_witness:
  "shootStateQueue
     (onUpdate both_queues (ExtensionObject (infra_a\<lparr>obj_state := Some ''ready''\<rparr>))
        (ExtensionObject infra_a))
     = Some \<lparr>queue = [''shoot--a/infra''], dirty = {''shoot--a/infra''}, processing = {},
             shuttingDown = False\<rparr>
   \<and> controllerInstallationExtensionQueue
       (onUpdate both_queues (ExtensionObject (infra_a\<lparr>obj_state := Some ''ready''\<rparr>))
          (ExtensionObject infra_a))
     = Some NewQueue
   \<and> controllerInstallationExtensionQueue
       (onUpdate both_queues (ExtensionObject (infra_a\<lparr>obj_type := ''gcp''\<rparr>))
          (ExtensionObject infra_a))
     = Some \<lparr>queue = [''shoot--a/infra''], dirty = {''shoot--a/infra''}, processing = {},
             shuttingDown = False\<rparr>
   \<and> shootStateQueue
       (onUpdate both_queues (ExtensionObject (infra_a\<lparr>obj_type := ''gcp''\<rparr>))
          (ExtensionObject infra_a))
     = Some NewQueue"
  using update_predicate_precision
      [of both_queues NewQueue NewQueue "infra_a\<lparr>obj_state := Some ''ready''\<rparr>" infra_a]
    update_predicate_precision
      [of both_queues NewQueue NewQueue "infra_a\<lparr>obj_type := ''gcp''\<rparr>" infra_a]
  by (simp add: both_queues_def infra_a_def extension_key_def Add_def NewQueue_def)

section \<open>What the state-mirror predicate compares\<close>

definition res_secret :: NamedResourceReference where
  "res_secret = \<lparr>Name = ''credentials'', RefKind = ''Secret'', RefName = ''cloud'',
                 RefAPIVersion = ''v1''\<rparr>"

definition res_config :: NamedResourceReference where
  "res_config = \<lparr>Name = ''settings'', RefKind = ''ConfigMap'', RefName = ''cloud'',
                 RefAPIVersion = ''v1''\<rparr>"

definition state_only :: artifact where
  "state_only = \<lparr>controllerInstallationExtensionQueue = None,
                 shootStateQueue = Some NewQueue\<rparr>"

text \<open>
  The two readings of "the observed resources are unchanged" that C4 is about: the same
  elements with the same multiplicities in any order, against the same list.
\<close>

definition same_elements :: "'a list \<Rightarrow> 'a list \<Rightarrow> bool" where
  "same_elements xs ys = (mset xs = mset ys)"

text \<open>
  For C5, two serializations of one JSON value: JSON allows white space (space, tab,
  line feed, carriage return) around every token, so two texts that are equal once the
  white space outside string literals is removed denote the same value. The flag says
  whether the position is inside a string literal; a backslash there escapes the next
  character.
\<close>

fun json_compact :: "bool \<Rightarrow> string \<Rightarrow> string" where
  "json_compact _ [] = []"
| "json_compact False (c # cs) =
     (if c \<in> {CHR '' '', CHR 0x09, CHR 0x0A, CHR 0x0D} then json_compact False cs
      else if c = CHR 0x22 then c # json_compact True cs
      else c # json_compact False cs)"
| "json_compact True [c] = [c]"
| "json_compact True (c # d # cs) =
     (if c = CHR 0x5C then c # d # json_compact True cs
      else if c = CHR 0x22 then c # json_compact False (d # cs)
      else c # json_compact True (d # cs))"

definition same_json :: "string \<Rightarrow> string \<Rightarrow> bool" where
  "same_json a b = (json_compact False a = json_compact False b)"

definition state_x1 :: string where
  "state_x1 = [CHR ''{'', CHR 0x22, CHR ''x'', CHR 0x22, CHR '':'', CHR ''1'', CHR ''}'']"

definition state_x1_spaced :: string where
  "state_x1_spaced =
     [CHR ''{'', CHR 0x22, CHR ''x'', CHR 0x22, CHR '':'', CHR '' '', CHR ''1'', CHR ''}'']"

text \<open>
  C4, as claimed (the comparison of the observed resources is order-insensitive), fails:
  the update from the resources \<open>[res_secret, res_config]\<close> to
  \<open>[res_config, res_secret]\<close>, the observed state being the same, has the same elements
  in another order; the predicate reports a change and the key is added to the
  state-mirror queue.
\<close>

theorem resources_reordered_counterexample:
  "same_elements [res_config, res_secret] [res_secret, res_config]
   \<and> obj_state (infra_a\<lparr>obj_resources := [res_config, res_secret]\<rparr>)
       = obj_state (infra_a\<lparr>obj_resources := [res_secret, res_config]\<rparr>)
   \<and> extensionStateOrResourcesChanged
       (ExtensionObject (infra_a\<lparr>obj_resources := [res_config, res_secret]\<rparr>))
       (ExtensionObject (infra_a\<lparr>obj_resources := [res_secret, res_config]\<rparr>))
   \<and> shootStateQueue
       (onUpdate state_only
          (ExtensionObject (infra_a\<lparr>obj_resources := [res_config, res_secret]\<rparr>))
          (ExtensionObject (infra_a\<lparr>obj_resources := [res_secret, res_config]\<rparr>)))
     = Some \<lparr>queue = [''shoot--a/infra''], dirty = {''shoot--a/infra''}, processing = {},
             shuttingDown = False\<rparr>"
  by (simp add: same_elements_def extensionStateOrResourcesChanged_extension onUpdate_def
      update_handler_extension state_only_def infra_a_def res_config_def res_secret_def
      extension_key_def Add_def NewQueue_def)

text \<open>
  C4, amended. The comparison of the observed resources is by position: with the
  observed state unchanged, the predicate reports a change exactly when the two lists
  differ as lists. When they are the same list, the state-mirror update handler leaves
  its queue as it was; when they have the same elements in a different order, the
  predicate reports a change and the handler adds the key to its queue.
\<close>

theorem resources_compared_in_order:
  assumes "obj_state new = obj_state old"
  shows "extensionStateOrResourcesChanged (ExtensionObject new) (ExtensionObject old)
           = (obj_resources new \<noteq> obj_resources old)
       \<and> (obj_resources new = obj_resources old \<longrightarrow>
            createEnqueueOnUpdateFunc q (Some extensionStateOrResourcesChanged)
              (ExtensionObject new) (ExtensionObject old) = q)
       \<and> (same_elements (obj_resources new) (obj_resources old)
            \<and> obj_resources new \<noteq> obj_resources old \<longrightarrow>
            extensionStateOrResourcesChanged (ExtensionObject new) (ExtensionObject old)
            \<and> createEnqueueOnUpdateFunc q (Some extensionStateOrResourcesChanged)
                  (ExtensionObject new) (ExtensionObject old) = Add (extension_key new) q)"
  using assms
  by (simp add: extensionStateOrResourcesChanged_extension update_handler_extension)

theorem resources_compared_in_order_witness:
  "obj_state (infra_a\<lparr>obj_type := ''gcp''\<rparr>) = obj_state infra_a
   \<and> \<not> extensionStateOrResourcesChanged (ExtensionObject (infra_a\<lparr>obj_type := ''gcp''\<rparr>))
         (ExtensionObject infra_a)
   \<and> createEnqueueOnUpdateFunc NewQueue (Some extensionStateOrResourcesChanged)
       (ExtensionObject (infra_a\<lparr>obj_type := ''gcp''\<rparr>)) (ExtensionObject infra_a) = NewQueue
   \<and> same_elements [res_config, res_secret] [res_secret, res_config]
   \<and> createEnqueueOnUpdateFunc NewQueue (Some extensionStateOrResourcesChanged)
       (ExtensionObject (infra_a\<lparr>obj_resources := [res_config, res_secret]\<rparr>))
       (ExtensionObject (infra_a\<lparr>obj_resources := [res_secret, res_config]\<rparr>))
     = Add ''shoot--a/infra'' NewQueue"
  using resources_compared_in_order [of "infra_a\<lparr>obj_type := ''gcp''\<rparr>" infra_a NewQueue]
    resources_compared_in_order
      [of "infra_a\<lparr>obj_resources := [res_config, res_secret]\<rparr>"
          "infra_a\<lparr>obj_resources := [res_secret, res_config]\<rparr>" NewQueue]
  by (simp add: same_elements_def res_config_def res_secret_def extension_key_def infra_a_def)

text \<open>
  C5, as claimed (a state that is semantically equal but serialized to different bytes
  reports no change), fails: \<open>state_x1\<close> is the text of the JSON value with the member
  x = 1 and \<open>state_x1_spaced\<close> the same value with a space after the colon; the
  predicate reports a change and the key is added to the state-mirror queue.
\<close>

theorem state_reserialized_counterexample:
  "same_json state_x1_spaced state_x1
   \<and> state_x1_spaced \<noteq> state_x1
   \<and> extensionStateOrResourcesChanged
       (ExtensionObject (infra_a\<lparr>obj_state := Some state_x1_spaced\<rparr>))
       (ExtensionObject (infra_a\<lparr>obj_state := Some state_x1\<rparr>))
   \<and> shootStateQueue
       (onUpdate state_only
          (ExtensionObject (infra_a\<lparr>obj_state := Some state_x1_spaced\<rparr>))
          (ExtensionObject (infra_a\<lparr>obj_state := Some state_x1\<rparr>)))
     = Some \<lparr>queue = [''shoot--a/infra''], dirty = {''shoot--a/infra''}, processing = {},
             shuttingDown = False\<rparr>"
  by (simp add: same_json_def state_x1_def state_x1_spaced_def
      extensionStateOrResourcesChanged_extension onUpdate_def update_handler_extension
      state_only_def infra_a_def extension_key_def Add_def NewQueue_def)

text \<open>
  C5, amended. The observed state is compared by its bytes: with the observed resources
  unchanged, the predicate reports a change exactly when the raw states differ (one nil
  and the other not, or different bytes). When the new state has the same bytes as the
  old one, as when the same text is written again, the state-mirror update handler leaves
  its queue as it was, so this event causes none of the writes that follow a dequeue;
  when the bytes differ, the handler adds the key to its queue, whatever the two texts
  denote.
\<close>

theorem state_compared_by_bytes:
  assumes "obj_resources new = obj_resources old"
  shows "extensionStateOrResourcesChanged (ExtensionObject new) (ExtensionObject old)
           = (obj_state new \<noteq> obj_state old)
       \<and> (obj_state new = obj_state old \<longrightarrow>
            createEnqueueOnUpdateFunc q (Some extensionStateOrResourcesChanged)
              (ExtensionObject new) (ExtensionObject old) = q)
       \<and> (obj_state new \<noteq> obj_state old \<longrightarrow>
            createEnqueueOnUpdateFunc q (Some extensionStateOrResourcesChanged)
              (ExtensionObject new) (ExtensionObject old) = Add (extension_key new) q)"
  using assms
  by (simp add: extensionStateOrResourcesChanged_extension update_handler_extension)

theorem state_compared_by_bytes_witness:
  "obj_resources (infra_a\<lparr>obj_state := Some state_x1\<rparr>)
     = obj_resources (infra_a\<lparr>obj_state := Some state_x1\<rparr>)
   \<and> \<not> extensionStateOrResourcesChanged (ExtensionObject (infra_a\<lparr>obj_state := Some state_x1\<rparr>))
         (ExtensionObject (infra_a\<lparr>obj_state := Some state_x1\<rparr>))
   \<and> createEnqueueOnUpdateFunc NewQueue (Some extensionStateOrResourcesChanged)
       (ExtensionObject (infra_a\<lparr>obj_state := Some state_x1\<rparr>))
       (ExtensionObject (infra_a\<lparr>obj_state := Some state_x1\<rparr>)) = NewQueue
   \<and> createEnqueueOnUpdateFunc NewQueue (Some extensionStateOrResourcesChanged)
       (ExtensionObject (infra_a\<lparr>obj_state := Some state_x1_spaced\<rparr>))
       (ExtensionObject (infra_a\<lparr>obj_state := Some state_x1\<rparr>))
     = Add ''shoot--a/infra'' NewQueue"
  using state_compared_by_bytes
    [of "infra_a\<lparr>obj_state := Some state_x1\<rparr>" "infra_a\<lparr>obj_state := Some state_x1\<rparr>" NewQueue]
    state_compared_by_bytes
    [of "infra_a\<lparr>obj_state := Some state_x1_spaced\<rparr>" "infra_a\<lparr>obj_state := Some state_x1\<rparr>"
        NewQueue]
  by (simp add: state_x1_def state_x1_spaced_def extension_key_def infra_a_def)

section \<open>The controller\<close>

text \<open>
  The state of the \<^verbatim>\<open>Controller\<close> struct and of the two controls it owns. The
  artifacts are a Go map from the kind to the artifact; they are a list of pairs here so
  that a \<^verbatim>\<open>range\<close> over them can be run (Go visits the entries in an unspecified
  order). \<^verbatim>\<open>kindToRequiredTypes\<close> (a \<^verbatim>\<open>sets.String\<close> per kind, here a list of its
  members) and its \<^verbatim>\<open>lock\<close> are the fields of
  \<^verbatim>\<open>controllerInstallationControl\<close> that \<^verbatim>\<open>NewController\<close> initializes;
  \<^verbatim>\<open>controllerInstallationQueue\<close> of that control is the same queue as
  \<^verbatim>\<open>controllerInstallationRequiredQueue\<close>. The wait group is its counter, the channel
  \<^verbatim>\<open>workerCh\<close> is the flag that its receiving goroutine runs and the number it has
  summed up, and \<open>workers\<close> lists the worker loops that were started.
\<close>

datatype RWMutex = Unlocked | RLocked nat | Locked

datatype queue_ref = RequiredQueue | ExtensionQueue string | ShootStateQueue string

record worker =
  worker_name :: string
  worker_queue :: queue_ref
  worker_running :: bool

record Controller =
  artifacts :: "(string \<times> artifact) list"
  controllerInstallationRequiredQueue :: "(string \<times> string) workqueue"
  kindToRequiredTypes :: "string \<rightharpoonup> string list"
  lock :: RWMutex
  waitGroup :: nat
  counting :: bool
  numberOfRunningWorkers :: int
  workers :: "worker list"

text \<open>
  \<^verbatim>\<open>NewController\<close>: the artifacts are what \<^verbatim>\<open>controllerArtifacts.initialize\<close>
  registers (not part of the sources at hand, so they are an argument); everything else
  starts empty.
\<close>

definition NewController :: "(string \<times> artifact) list \<Rightarrow> Controller" where
  "NewController registered =
     \<lparr>artifacts = registered,
      controllerInstallationRequiredQueue = NewQueue,
      kindToRequiredTypes = Map.empty,
      lock = Unlocked,
      waitGroup = 0,
      counting = False,
      numberOfRunningWorkers = 0,
      workers = []\<rparr>"

text \<open>
  The informer of a kind calls the handlers registered for that kind's artifact; the
  handlers hold the artifact's queues and nothing else of the controller.
\<close>

definition on_artifact :: "string \<Rightarrow> (artifact \<Rightarrow> artifact) \<Rightarrow> Controller \<Rightarrow> Controller" where
  "on_artifact kind f c =
     c\<lparr>artifacts := map (\<lambda>(k, a). if k = kind then (k, f a) else (k, a)) (artifacts c)\<rparr>"

definition handleAdd :: "string \<Rightarrow> payload \<Rightarrow> Controller \<Rightarrow> Controller" where
  "handleAdd kind obj c = on_artifact kind (\<lambda>a. onAdd a obj) c"

definition handleUpdate :: "string \<Rightarrow> payload \<Rightarrow> payload \<Rightarrow> Controller \<Rightarrow> Controller" where
  "handleUpdate kind newObj oldObj c = on_artifact kind (\<lambda>a. onUpdate a newObj oldObj) c"

definition handleDelete :: "string \<Rightarrow> payload \<Rightarrow> Controller \<Rightarrow> Controller" where
  "handleDelete kind obj c = on_artifact kind (\<lambda>a. onDelete a obj) c"

text \<open>
  C8. Every enqueue path computes the key and adds it to its queue, and nothing more:
  the queue after \<^verbatim>\<open>createEnqueueFunc\<close> is the queue before, or the queue before with
  the key added; the one after \<^verbatim>\<open>createEnqueueOnUpdateFunc\<close> is the queue before or
  what \<^verbatim>\<open>createEnqueueFunc\<close> gives for the new object. Run on the controller, the add,
  update and delete handlers leave \<^verbatim>\<open>kindToRequiredTypes\<close> and its lock as they were
  for every payload, and the queues they produce are the same whatever
  \<^verbatim>\<open>kindToRequiredTypes\<close> and the lock hold: they do not read them.
\<close>

theorem handlers_only_enqueue:
  "createEnqueueFunc q obj
     = (case MetaNamespaceKeyFunc obj of Inl err \<Rightarrow> q | Inr key \<Rightarrow> Add key q)
   \<and> (createEnqueueOnUpdateFunc q p newObj oldObj = q
      \<or> createEnqueueOnUpdateFunc q p newObj oldObj = createEnqueueFunc q newObj)
   \<and> kindToRequiredTypes (handleAdd kind obj c) = kindToRequiredTypes c
   \<and> lock (handleAdd kind obj c) = lock c
   \<and> kindToRequiredTypes (handleUpdate kind newObj oldObj c) = kindToRequiredTypes c
   \<and> lock (handleUpdate kind newObj oldObj c) = lock c
   \<and> kindToRequiredTypes (handleDelete kind obj c) = kindToRequiredTypes c
   \<and> lock (handleDelete kind obj c) = lock c
   \<and> artifacts (handleAdd kind obj (c\<lparr>kindToRequiredTypes := m, lock := l\<rparr>))
       = artifacts (handleAdd kind obj c)
   \<and> artifacts (handleUpdate kind newObj oldObj (c\<lparr>kindToRequiredTypes := m, lock := l\<rparr>))
       = artifacts (handleUpdate kind newObj oldObj c)
   \<and> artifacts (handleDelete kind obj (c\<lparr>kindToRequiredTypes := m, lock := l\<rparr>))
       = artifacts (handleDelete kind obj c)"
  by (simp add: createEnqueueFunc_def enqueue_def createEnqueueOnUpdateFunc_def
      handleAdd_def handleUpdate_def handleDelete_def on_artifact_def
      split: option.split sum.split)

section \<open>Starting the controller\<close>

text \<open>
  Modelled from the spec: \<^verbatim>\<open>controllerutils.CreateWorker\<close> (called in
  \<^verbatim>\<open>createControllerInstallationWorkers\<close> and \<^verbatim>\<open>createShootStateWorkers\<close> with the queue,
  the worker's name, the reconcile function, the wait group and \<^verbatim>\<open>workerCh\<close>; its body
  is not part of the sources at hand). Section 4.1: it starts one worker loop on the
  queue; the shutdown waits for every such loop, so the loop is registered with the wait
  group when it starts, and it is counted on \<^verbatim>\<open>workerCh\<close>.
\<close>

definition CreateWorker :: "queue_ref \<Rightarrow> string \<Rightarrow> Controller \<Rightarrow> Controller" where
  "CreateWorker q resourceType c =
     c\<lparr>waitGroup := waitGroup c + 1,
       numberOfRunningWorkers := numberOfRunningWorkers c + 1,
       workers := workers c @
         [\<lparr>worker_name = resourceType, worker_queue = q, worker_running = True\<rparr>]\<rparr>"

definition createControllerInstallationWorkers :: "Controller \<Rightarrow> Controller" where
  "createControllerInstallationWorkers c =
     fold (\<lambda>(kind, a) c'.
             if controllerInstallationExtensionQueue a = None then c'
             else CreateWorker (ExtensionQueue kind)
                    (''ControllerInstallation-Extension-'' @ kind) c')
       (artifacts c)
       (CreateWorker RequiredQueue ''ControllerInstallation-Required'' c)"

definition createShootStateWorkers :: "Controller \<Rightarrow> Controller" where
  "createShootStateWorkers c =
     fold (\<lambda>(kind, a) c'.
             if shootStateQueue a = None then c'
             else CreateWorker (ShootStateQueue kind) (''ShootState-'' @ kind) c')
       (artifacts c) c"

text \<open>
  Time is counted in nanoseconds from the call of \<^verbatim>\<open>Run\<close>, as \<^verbatim>\<open>time.Duration\<close>
  does. \<^verbatim>\<open>cache.WaitForCacheSync(stopCh, cacheSyncs...)\<close> of client-go polls the
  \<^verbatim>\<open>HasSynced\<close> functions: once at the call, before it looks at the stop channel, and
  then every 100 ms for as long as the stop channel is not closed. It returns true at the
  first poll that finds all of them true, and false when the stop channel is closed
  first. A \<^verbatim>\<open>HasSynced\<close> function is given by the time from which it returns true
  (\<open>None\<close>: never), so the result is whether all of them are true at the last poll that
  is made: the one at the call when the stop channel is closed within the first period,
  else the last multiple of the period before the closing.
\<close>

definition Minute :: nat where
  "Minute = 60 * 1000000000"

definition syncedPollPeriod :: nat where
  "syncedPollPeriod = 100 * 1000000"

definition lastPoll :: "nat \<Rightarrow> nat" where
  "lastPoll stopAt = ((stopAt - 1) div syncedPollPeriod) * syncedPollPeriod"

definition WaitForCacheSync :: "nat \<Rightarrow> nat option list \<Rightarrow> bool" where
  "WaitForCacheSync stopAt cacheSyncs =
     list_all (\<lambda>s. case s of None \<Rightarrow> False | Some t \<Rightarrow> t \<le> lastPoll stopAt) cacheSyncs"

text \<open>
  \<^verbatim>\<open>context.WithTimeout(ctx, time.Minute*2)\<close>: done after two minutes, or when the
  parent context is done (\<open>ctxDone\<close>, \<open>None\<close> when it never is), whichever is first.
\<close>

definition WithTimeout :: "nat option \<Rightarrow> nat \<Rightarrow> nat" where
  "WithTimeout ctxDone d = (case ctxDone of None \<Rightarrow> d | Some t \<Rightarrow> min t d)"

text \<open>
  \<^verbatim>\<open>Run\<close> returns the error (\<open>None\<close> for nil) and the controller. The two
  \<^verbatim>\<open>for i := 0; i < n; i++\<close> loops run \<open>nat n\<close> times, none for a negative count.
\<close>

definition Run ::
  "nat option \<Rightarrow> nat option list \<Rightarrow> int \<Rightarrow> int \<Rightarrow> Controller \<Rightarrow> string option \<times> Controller"
where
  "Run ctxDone hasSyncedFuncs controllerInstallationWorkers shootStateWorkers c =
     (if \<not> WaitForCacheSync (WithTimeout ctxDone (Minute * 2)) hasSyncedFuncs
      then (Some ''timeout waiting for extension informers to sync'', c)
      else (None,
            (createShootStateWorkers ^^ nat shootStateWorkers)
              ((createControllerInstallationWorkers ^^ nat controllerInstallationWorkers)
                 (c\<lparr>counting := True\<rparr>))))"

lemma WithTimeout_le: "WithTimeout ctxDone d \<le> d"
  by (simp add: WithTimeout_def split: option.split)

lemma lastPoll_less:
  assumes "0 < d" and "stopAt \<le> d"
  shows "lastPoll stopAt < d"
proof -
  have "lastPoll stopAt \<le> stopAt - 1"
    by (simp add: lastPoll_def)
  with assms show ?thesis
    by (cases "stopAt = 0") auto
qed

lemma WaitForCacheSync_late:
  assumes "s \<in> set cacheSyncs" and "case s of None \<Rightarrow> True | Some t \<Rightarrow> lastPoll stopAt < t"
  shows "\<not> WaitForCacheSync stopAt cacheSyncs"
proof (cases s)
  case None
  with assms(1) show ?thesis
    by (force simp: WaitForCacheSync_def list_all_iff)
next
  case (Some t)
  with assms show ?thesis
    by (force simp: WaitForCacheSync_def list_all_iff)
qed

text \<open>
  C3. When some informer has not reported its cache as synced within the two minutes of
  the startup timeout, \<^verbatim>\<open>Run\<close> returns the timeout error and the controller is as it
  was: no worker loop was started, nothing was added to the wait group, and the goroutine
  that counts the workers was not started either.
\<close>

theorem Run_sync_timeout:
  assumes "s \<in> set hasSyncedFuncs"
      and "case s of None \<Rightarrow> True | Some t \<Rightarrow> Minute * 2 \<le> t"
  shows "Run ctxDone hasSyncedFuncs controllerInstallationWorkers shootStateWorkers c
           = (Some ''timeout waiting for extension informers to sync'', c)
       \<and> workers (snd (Run ctxDone hasSyncedFuncs controllerInstallationWorkers
                          shootStateWorkers c)) = workers c"
proof -
  have "lastPoll (WithTimeout ctxDone (Minute * 2)) < Minute * 2"
    by (rule lastPoll_less) (simp_all add: Minute_def WithTimeout_le)
  then have "case s of None \<Rightarrow> True
             | Some t \<Rightarrow> lastPoll (WithTimeout ctxDone (Minute * 2)) < t"
    using assms(2) by (auto split: option.splits)
  then have "\<not> WaitForCacheSync (WithTimeout ctxDone (Minute * 2)) hasSyncedFuncs"
    using assms(1) WaitForCacheSync_late by blast
  then show ?thesis
    by (simp add: Run_def)
qed

definition two_kinds :: "(string \<times> artifact) list" where
  "two_kinds = [(''Infrastructure'', both_queues), (''DNSRecord'', state_only)]"

theorem Run_sync_timeout_witness:
  "Run None [Some 5, None] 2 3 (NewController two_kinds)
     = (Some ''timeout waiting for extension informers to sync'', NewController two_kinds)
   \<and> workers (snd (Run None [Some 5, None] 2 3 (NewController two_kinds))) = []"
  using Run_sync_timeout [of None "[Some 5, None]" None 2 3 "NewController two_kinds"]
  by (simp add: NewController_def)

text \<open>
  When both informers have synced in time, \<^verbatim>\<open>Run\<close> returns nil, the wait group holds
  the worker loops, and with one worker of each sort these loops are started: the one of
  the installation queue, the one of the required-type queue of the kind that has one,
  and the ones of the two state-mirror queues.
\<close>

lemma Run_synced_starts_workers:
  "fst (Run None [Some 5, Some 7] 1 1 (NewController two_kinds)) = None
   \<and> map worker_name (workers (snd (Run None [Some 5, Some 7] 1 1 (NewController two_kinds))))
       = [''ControllerInstallation-Required'', ''ControllerInstallation-Extension-Infrastructure'',
          ''ShootState-Infrastructure'', ''ShootState-DNSRecord'']
   \<and> waitGroup (snd (Run None [Some 5, Some 7] 1 1 (NewController two_kinds))) = 4"
  by (simp add: Run_def WaitForCacheSync_def WithTimeout_def Minute_def lastPoll_def
      syncedPollPeriod_def createControllerInstallationWorkers_def createShootStateWorkers_def CreateWorker_def
      NewController_def two_kinds_def both_queues_def state_only_def)

section \<open>Stopping the controller\<close>


















































section \<open>The clusters and the reconcile functions\<close>

text \<open>
  Modelled from the spec: the external state that the reconcile functions read and write
  through the API client (the clients are fields of the two controls in
  \<^verbatim>\<open>NewController\<close>; the code that uses them is not part of the sources at hand).
  Sections 3 and 6: the seed cluster holds the extension objects, each of a kind; the
  management cluster holds the installation records, identified by kind and type, with
  their required flag; the tenant retriever resolves a namespace to the owning tenant;
  the tenant snapshot maps a tenant to its entries, one per kind, name and purpose. The
  writes are \<^verbatim>\<open>patchRequired(kind, type, required)\<close> and
  \<^verbatim>\<open>upsertSnapshotEntry(tenant, ...)\<close>. A call to the API client can fail (section 7,
  transient errors): \<open>api\<close> says whether the reads and the writes of one run succeed.
\<close>

record snapshot_entry =
  entry_kind :: string
  entry_name :: string
  entry_purpose :: "string option"
  entry_state :: "string option"
  entry_resources :: "NamedResourceReference list"

record cluster =
  seed :: "(string \<times> ext_object) list"
  installations :: "string \<times> string \<rightharpoonup> bool"
  tenants :: "string \<rightharpoonup> string"
  snapshots :: "string \<Rightarrow> snapshot_entry list"

datatype write_call =
    PatchRequired string string bool
  | UpsertSnapshotEntry string snapshot_entry

record api =
  read_ok :: bool
  write_ok :: bool

datatype outcome = Succeeded | Failed

text \<open>
  Modelled from the spec: \<^verbatim>\<open>list(kind)\<close> and \<^verbatim>\<open>get(kind, namespacedName)\<close> of the
  object store (section 6).
\<close>

definition list_objects :: "cluster \<Rightarrow> string \<Rightarrow> ext_object list" where
  "list_objects w kind = map snd (filter (\<lambda>(k, e). k = kind) (seed w))"

definition get_object :: "cluster \<Rightarrow> string \<Rightarrow> string \<Rightarrow> ext_object option" where
  "get_object w kind key = find (\<lambda>e. extension_key e = key) (list_objects w kind)"

text \<open>
  Modelled from the spec: \<^verbatim>\<open>createExtensionRequiredReconcileFunc\<close> (passed to
  \<^verbatim>\<open>CreateWorker\<close> in \<^verbatim>\<open>createControllerInstallationWorkers\<close>; its body is not part
  of the sources at hand). Section 4.3, operation onExtensionKindChanged: (1) list all
  current objects of the kind from the live store; (2) compute the set of distinct
  types; (3) for every type added or removed against the recorded set, enqueue the
  installation key (kind, type); (4) replace the recorded set of the kind. A kind
  without a recorded set has the empty one. \<open>list_types\<close> is steps 1 and 2, the call to
  the store; \<open>commit_types\<close> is steps 3 and 4, which run in the worker without a
  further call.
\<close>

definition required_types :: "Controller \<Rightarrow> string \<Rightarrow> string list" where
  "required_types c kind = (case kindToRequiredTypes c kind of None \<Rightarrow> [] | Some ts \<Rightarrow> ts)"

definition list_types :: "cluster \<Rightarrow> string \<Rightarrow> string list" where
  "list_types w kind = remdups (map obj_type (list_objects w kind))"

definition changed_types :: "string list \<Rightarrow> string list \<Rightarrow> string list" where
  "changed_types oldTypes newTypes =
     filter (\<lambda>t. t \<notin> set oldTypes) newTypes @ filter (\<lambda>t. t \<notin> set newTypes) oldTypes"

definition commit_types :: "string \<Rightarrow> string list \<Rightarrow> Controller \<Rightarrow> Controller" where
  "commit_types kind newTypes c =
     c\<lparr>controllerInstallationRequiredQueue :=
         fold (\<lambda>t. Add (kind, t)) (changed_types (required_types c kind) newTypes)
           (controllerInstallationRequiredQueue c),
       kindToRequiredTypes := (kindToRequiredTypes c)(kind \<mapsto> newTypes)\<rparr>"

definition onExtensionKindChanged :: "api \<Rightarrow> string \<Rightarrow> cluster \<Rightarrow> Controller \<Rightarrow> outcome \<times> Controller" where
  "onExtensionKindChanged a kind w c =
     (if \<not> read_ok a then (Failed, c)
      else (Succeeded, commit_types kind (list_types w kind) c))"

text \<open>
  Modelled from the spec: \<^verbatim>\<open>createControllerInstallationRequiredReconcileFunc\<close> (passed
  to \<^verbatim>\<open>CreateWorker\<close>; not part of the sources at hand). Section 4.3, operation
  reconcileInstallationRequired: (1) \<open>want\<close> is whether the type is in the recorded set
  of the kind; (2) the installation record is read, and a missing record is a no-op and
  not an error; (3) if \<open>want\<close> differs from the record's flag the record is patched, and
  a failed patch is an error that the worker runtime retries. The result is the
  outcome, the write calls issued and the cluster.
\<close>

definition want_of :: "Controller \<Rightarrow> string \<times> string \<Rightarrow> bool" where
  "want_of c key = (snd key \<in> set (required_types c (fst key)))"

definition patch_required :: "string \<times> string \<Rightarrow> bool \<Rightarrow> cluster \<Rightarrow> cluster" where
  "patch_required key want w = w\<lparr>installations := (installations w)(key \<mapsto> want)\<rparr>"

definition reconcileInstallationRequired ::
  "api \<Rightarrow> string \<times> string \<Rightarrow> Controller \<Rightarrow> cluster \<Rightarrow> outcome \<times> write_call list \<times> cluster"
where
  "reconcileInstallationRequired a key c w =
     (let want = want_of c key
      in if \<not> read_ok a then (Failed, [], w)
         else
           (case installations w key of
              None \<Rightarrow> (Succeeded, [], w)
            | Some required \<Rightarrow>
                if want = required then (Succeeded, [], w)
                else if \<not> write_ok a then (Failed, [PatchRequired (fst key) (snd key) want], w)
                else (Succeeded, [PatchRequired (fst key) (snd key) want],
                      patch_required key want w)))"

text \<open>
  Modelled from the spec: the upsert of section 4.4, step 4: replace any existing entry
  with the same kind, name and purpose, else append.
\<close>

definition same_entry_key :: "snapshot_entry \<Rightarrow> snapshot_entry \<Rightarrow> bool" where
  "same_entry_key x y =
     (entry_kind x = entry_kind y \<and> entry_name x = entry_name y
      \<and> entry_purpose x = entry_purpose y)"

definition upsert :: "snapshot_entry \<Rightarrow> snapshot_entry list \<Rightarrow> snapshot_entry list" where
  "upsert e es =
     (if list_ex (same_entry_key e) es
      then map (\<lambda>x. if same_entry_key e x then e else x) es
      else es @ [e])"

definition snapshot_entry_of :: "string \<Rightarrow> ext_object \<Rightarrow> snapshot_entry" where
  "snapshot_entry_of kind e =
     \<lparr>entry_kind = kind, entry_name = obj_name e, entry_purpose = obj_purpose e,
      entry_state = obj_state e, entry_resources = obj_resources e\<rparr>"

definition upsert_snapshot :: "string \<Rightarrow> snapshot_entry \<Rightarrow> cluster \<Rightarrow> cluster" where
  "upsert_snapshot tenant entry w =
     w\<lparr>snapshots := (snapshots w)(tenant := upsert entry (snapshots w tenant))\<rparr>"

text \<open>
  Modelled from the spec: \<^verbatim>\<open>createShootStateSyncReconcileFunc\<close> (passed to
  \<^verbatim>\<open>CreateWorker\<close> in \<^verbatim>\<open>createShootStateWorkers\<close>; not part of the sources at hand).
  Section 4.4, operation syncExtensionState: re-read the object, an absent object is a
  success without any removal; resolve the tenant of its namespace, no tenant is a skip
  without error; build the entry and upsert it into the tenant's snapshot in one call.
  Section 8: the upsert is a no-op when the state is already correct, so no write is
  issued when the snapshot already holds the entry.
\<close>

definition syncExtensionState ::
  "api \<Rightarrow> string \<Rightarrow> string \<Rightarrow> cluster \<Rightarrow> outcome \<times> write_call list \<times> cluster"
where
  "syncExtensionState a kind key w =
     (if \<not> read_ok a then (Failed, [], w)
      else
        (case get_object w kind key of
           None \<Rightarrow> (Succeeded, [], w)
         | Some e \<Rightarrow>
             (case tenants w (obj_namespace e) of
                None \<Rightarrow> (Succeeded, [], w)
              | Some tenant \<Rightarrow>
                  let entry = snapshot_entry_of kind e
                  in if upsert entry (snapshots w tenant) = snapshots w tenant
                     then (Succeeded, [], w)
                     else if \<not> write_ok a then (Failed, [UpsertSnapshotEntry tenant entry], w)
                     else (Succeeded, [UpsertSnapshotEntry tenant entry],
                           upsert_snapshot tenant entry w))))"

subsection \<open>Running a reconcile function twice\<close>

lemma upsert_idem: "upsert e (upsert e es) = upsert e es"
proof (cases "list_ex (same_entry_key e) es")
  case True
  have k: "same_entry_key e e" by (simp add: same_entry_key_def)
  from True have "list_ex (same_entry_key e) (map (\<lambda>x. if same_entry_key e x then e else x) es)"
    using k by (auto simp: list_ex_iff)
  then show ?thesis
    using True k by (auto simp: upsert_def)
next
  case False
  have k: "same_entry_key e e" by (simp add: same_entry_key_def)
  from False have "\<forall>x\<in>set es. \<not> same_entry_key e x" by (simp add: list_ex_iff)
  then have "map (\<lambda>x. if same_entry_key e x then e else x) es = es"
    by (induction es) auto
  then show ?thesis
    using False k by (simp add: upsert_def list_ex_iff)
qed

lemma reconcileInstallationRequired_idem:
  assumes "reconcileInstallationRequired a key c w = (Succeeded, calls, w')"
  shows "reconcileInstallationRequired a' key c w' =
           (if read_ok a' then Succeeded else Failed, [], w')"
  using assms
  by (auto simp: reconcileInstallationRequired_def patch_required_def Let_def
      split: if_splits option.splits)

lemma syncExtensionState_idem:
  assumes "syncExtensionState a kind key w = (Succeeded, calls, w')"
  shows "syncExtensionState a' kind key w' =
           (if read_ok a' then Succeeded else Failed, [], w')"
  using assms
  by (auto simp: syncExtensionState_def upsert_snapshot_def Let_def get_object_def
      list_objects_def upsert_idem split: if_splits option.splits)

lemma changed_types_same: "changed_types ts ts = []"
  by (simp add: changed_types_def)

lemma onExtensionKindChanged_idem:
  assumes "onExtensionKindChanged a kind w c = (Succeeded, c')"
  shows "snd (onExtensionKindChanged a' kind w c') = c'"
  using assms
  by (auto simp: onExtensionKindChanged_def commit_types_def required_types_def
      changed_types_same split: if_splits)

text \<open>
  Concrete clusters and controllers: \<open>garden_1\<close> holds one infrastructure object of
  type aws and an installation record that is not required yet; \<open>garden_2\<close> is
  \<open>garden_1\<close> after the patch, \<open>garden_3\<close> is \<open>garden_1\<close> after the upsert.
\<close>

definition api_ok :: api where
  "api_ok = \<lparr>read_ok = True, write_ok = True\<rparr>"

definition api_write_fails :: api where
  "api_write_fails = \<lparr>read_ok = True, write_ok = False\<rparr>"

definition garden_0 :: cluster where
  "garden_0 = \<lparr>seed = [], installations = [(''Infrastructure'', ''aws'') \<mapsto> False],
               tenants = [''shoot--a'' \<mapsto> ''tenant-a''], snapshots = (\<lambda>tenant. [])\<rparr>"

definition garden_1 :: cluster where
  "garden_1 = garden_0\<lparr>seed := [(''Infrastructure'', infra_a)]\<rparr>"

definition garden_2 :: cluster where
  "garden_2 = garden_1\<lparr>installations := [(''Infrastructure'', ''aws'') \<mapsto> True]\<rparr>"

definition ci_only :: artifact where
  "ci_only = \<lparr>controllerInstallationExtensionQueue = Some NewQueue, shootStateQueue = None\<rparr>"

definition infra_only :: "(string \<times> artifact) list" where
  "infra_only = [(''Infrastructure'', ci_only)]"

definition tracking_aws :: Controller where
  "tracking_aws = (NewController infra_only)\<lparr>kindToRequiredTypes := [''Infrastructure'' \<mapsto> [''aws'']]\<rparr>"

definition infra_tracked :: Controller where
  "infra_tracked =
     (NewController infra_only)
       \<lparr>controllerInstallationRequiredQueue :=
          \<lparr>queue = [(''Infrastructure'', ''aws'')], dirty = {(''Infrastructure'', ''aws'')},
           processing = {}, shuttingDown = False\<rparr>,
        kindToRequiredTypes := [''Infrastructure'' \<mapsto> [''aws'']]\<rparr>"

definition infra_entry :: snapshot_entry where
  "infra_entry = \<lparr>entry_kind = ''Infrastructure'', entry_name = ''infra'', entry_purpose = None,
                  entry_state = None, entry_resources = []\<rparr>"

definition garden_3 :: cluster where
  "garden_3 = garden_1\<lparr>snapshots := (\<lambda>tenant. [])(''tenant-a'' := [infra_entry])\<rparr>"

text \<open>
  C6. Both reconcile operations are idempotent with respect to external writes. When a
  run of the reconcile function for a key has returned without error and nothing has
  changed the cluster since, a second run for the same key (whatever the API client does
  in it) issues no write call, neither a patch nor an upsert, and returns the cluster as
  it is. The same holds inside the controller for the recomputation of a kind's required
  types: the second run leaves the installation queue and the recorded set as they are.
\<close>

theorem reconcile_twice:
  "(reconcileInstallationRequired a key c w = (Succeeded, calls, w') \<longrightarrow>
      reconcileInstallationRequired a' key c w'
        = (if read_ok a' then Succeeded else Failed, [], w'))
   \<and> (syncExtensionState a kind k w = (Succeeded, calls, w') \<longrightarrow>
        syncExtensionState a' kind k w'
          = (if read_ok a' then Succeeded else Failed, [], w'))
   \<and> (onExtensionKindChanged a kind w c = (Succeeded, c') \<longrightarrow>
        snd (onExtensionKindChanged a' kind w c') = c')"
  using reconcileInstallationRequired_idem syncExtensionState_idem onExtensionKindChanged_idem
  by blast

theorem reconcile_twice_witness:
  "reconcileInstallationRequired api_ok (''Infrastructure'', ''aws'') tracking_aws garden_1
     = (Succeeded, [PatchRequired ''Infrastructure'' ''aws'' True], garden_2)
   \<and> reconcileInstallationRequired api_ok (''Infrastructure'', ''aws'') tracking_aws garden_2
     = (Succeeded, [], garden_2)
   \<and> syncExtensionState api_ok ''Infrastructure'' ''shoot--a/infra'' garden_1
     = (Succeeded, [UpsertSnapshotEntry ''tenant-a'' infra_entry], garden_3)
   \<and> syncExtensionState api_write_fails ''Infrastructure'' ''shoot--a/infra'' garden_3
     = (Succeeded, [], garden_3)
   \<and> onExtensionKindChanged api_ok ''Infrastructure'' garden_1 (NewController infra_only)
     = (Succeeded, infra_tracked)
   \<and> snd (onExtensionKindChanged api_ok ''Infrastructure'' garden_1 infra_tracked)
     = infra_tracked"
proof -
  have 1: "reconcileInstallationRequired api_ok (''Infrastructure'', ''aws'') tracking_aws garden_1
     = (Succeeded, [PatchRequired ''Infrastructure'' ''aws'' True], garden_2)"
    by (simp add: reconcileInstallationRequired_def want_of_def patch_required_def api_ok_def
        tracking_aws_def garden_1_def garden_2_def garden_0_def required_types_def
        NewController_def Let_def)
  have 2: "syncExtensionState api_ok ''Infrastructure'' ''shoot--a/infra'' garden_1
     = (Succeeded, [UpsertSnapshotEntry ''tenant-a'' infra_entry], garden_3)"
    by (simp add: syncExtensionState_def snapshot_entry_of_def upsert_snapshot_def api_ok_def
        garden_1_def garden_3_def garden_0_def get_object_def list_objects_def
        extension_key_def infra_a_def infra_entry_def upsert_def Let_def)
  have 3: "onExtensionKindChanged api_ok ''Infrastructure'' garden_1 (NewController infra_only)
     = (Succeeded, infra_tracked)"
    by (simp add: onExtensionKindChanged_def commit_types_def list_types_def changed_types_def
        api_ok_def garden_1_def garden_0_def list_objects_def infra_a_def required_types_def
        NewController_def infra_tracked_def Add_def NewQueue_def)
  from 1 reconcile_twice [of api_ok "(''Infrastructure'', ''aws'')" tracking_aws garden_1
      "[PatchRequired ''Infrastructure'' ''aws'' True]" garden_2 api_ok]
  have a: "reconcileInstallationRequired api_ok (''Infrastructure'', ''aws'') tracking_aws garden_2
     = (Succeeded, [], garden_2)"
    by (simp add: api_ok_def)
  from 2 reconcile_twice [of api_ok _ _ garden_1
      "[UpsertSnapshotEntry ''tenant-a'' infra_entry]" garden_3 api_write_fails
      "''Infrastructure''" "''shoot--a/infra''"]
  have b: "syncExtensionState api_write_fails ''Infrastructure'' ''shoot--a/infra'' garden_3
     = (Succeeded, [], garden_3)"
    by (simp add: api_write_fails_def)
  from 3 reconcile_twice [of api_ok _ "NewController infra_only" garden_1 _ _ api_ok
      "''Infrastructure''" _ infra_tracked]
  have c: "snd (onExtensionKindChanged api_ok ''Infrastructure'' garden_1 infra_tracked)
     = infra_tracked"
    by simp
  from 1 2 3 a b c show ?thesis by simp
qed

end
